theory Spec2Isabelle
  imports Main "HOL-Library.Word"
begin

section \<open>Values held by the store\<close>

text \<open>
  The store maps names to Go values of static type \<open>interface{}\<close>. An interface value is
  either nil or a pair of a concrete type and a value of that type. The model covers the
  concrete types that the package itself can place in a store when its generic functions
  are instantiated at predeclared types: what the two file parsers produce (string,
  float64, bool, \<open>[]interface{}\<close>, \<open>map[string]interface{}\<close> and the nil that JSON null
  decodes to), what \<open>Key[T].Put\<close> stores for the predeclared members of \<open>Keyable\<close>
  (the integer and float types), and the \<open>time.Time\<close> that \<open>TimeKey.Put\<close> stores.
  User-defined named types (\<open>type S string\<close>) and foreign values passed to the untyped
  \<open>Put\<close> are outside the model.

  Floats are kept as their IEEE 754 bit patterns; integers as their mathematical value
  together with their Go type; a \<open>time.Time\<close> as an instant in nanoseconds.
\<close>

datatype intty =
  KInt | KInt8 | KInt16 | KInt32 | KInt64
| KUint | KUint8 | KUint16 | KUint32 | KUint64 | KUintptr

datatype gotype =
  TString | TBool | TInteger intty | TFloat32 | TFloat64
| TSlice | TMap | TTime

datatype timestamp = Timestamp int

datatype val =
  VString string
| VBool bool
| VInteger intty int
| VFloat32 "32 word"
| VFloat64 "64 word"
| VSlice "iface list"
| VMap "(string \<times> iface) list"
| VTime timestamp
and iface = NilIface | Iface val

text \<open>\<open>reflect.TypeOf\<close> on a non-nil interface value.\<close>

fun typeOf :: "val \<Rightarrow> gotype" where
  "typeOf (VString s) = TString"
| "typeOf (VBool b) = TBool"
| "typeOf (VInteger t n) = TInteger t"
| "typeOf (VFloat32 w) = TFloat32"
| "typeOf (VFloat64 w) = TFloat64"
| "typeOf (VSlice xs) = TSlice"
| "typeOf (VMap kvs) = TMap"
| "typeOf (VTime t) = TTime"

section \<open>Errors, panics and the library the package calls\<close>

datatype errno = ENOENT | EACCES | EISDIR | ENOSPC | EIO

datatype error =
  ErrKeyNotFound
| ErrCast gotype gotype
| PathError errno
| ErrTooLong
| LibError string

text \<open>A call either returns or panics.\<close>

datatype 'a outcome = Panics | Returns 'a

text \<open>
  A Go map \<open>map[string]interface{}\<close> is nil or holds entries. Reading a nil map finds
  no key and \<open>range\<close> over it visits nothing; assigning to an entry of a nil map panics.
\<close>

type_synonym gomap = "(string \<rightharpoonup> iface) option"

definition lookup :: "gomap \<Rightarrow> string \<Rightarrow> iface option" where
  "lookup m key = (case m of None \<Rightarrow> None | Some entries \<Rightarrow> entries key)"

definition keys :: "gomap \<Rightarrow> string set" where
  "keys m = (case m of None \<Rightarrow> {} | Some entries \<Rightarrow> dom entries)"

text \<open>
  The functions of the Go standard library whose results the package only passes on are
  parameters of the model: \<open>strconv.ParseFloat(s, 64)\<close> (\<open>None\<close> is its error), the
  \<open>%v\<close> rendering of floats by \<open>fmt\<close>, the value computed by
  \<open>reflect.Value.Convert\<close>, \<open>time.Time.UnmarshalText\<close>, and the JSON decoder and
  encoder of \<open>encoding/json\<close> applied to a whole file. The decoder is given the map
  that \<open>parseFileJSON\<close> has just made and returns what that variable holds afterwards:
  the JSON text \<open>null\<close> sets it to the nil map.
\<close>

record golib =
  ParseFloat :: "string \<Rightarrow> 64 word option"
  FormatFloat32 :: "32 word \<Rightarrow> string"
  FormatFloat64 :: "64 word \<Rightarrow> string"
  Convert :: "val \<Rightarrow> gotype \<Rightarrow> val"
  UnmarshalText :: "string \<Rightarrow> error + timestamp"
  jsonDecode :: "string \<Rightarrow> gomap \<times> error option"
  jsonEncode :: "gomap \<Rightarrow> error + string"

text \<open>\<open>strconv.FormatBool\<close> and \<open>strconv.ParseBool\<close>.\<close>

definition FormatBool :: "bool \<Rightarrow> string" where
  "FormatBool b = (if b then ''true'' else ''false'')"

definition ParseBool :: "string \<Rightarrow> bool option" where
  "ParseBool s =
     (if s \<in> set [''1'', ''t'', ''T'', ''TRUE'', ''true'', ''True''] then Some True
      else if s \<in> set [''0'', ''f'', ''F'', ''FALSE'', ''false'', ''False''] then Some False
      else None)"

text \<open>
  \<open>reflect.Value.CanConvert\<close> for a non-nil value and a target type, by the table of
  \<open>reflect\<close>'s conversion operations restricted to the types of the model: integers
  convert to integers, floats and strings; floats convert to integers and floats;
  otherwise the two types must have the same underlying type.
\<close>

fun isInteger :: "gotype \<Rightarrow> bool" where
  "isInteger (TInteger t) = True"
| "isInteger _ = False"

fun isFloat :: "gotype \<Rightarrow> bool" where
  "isFloat TFloat32 = True"
| "isFloat TFloat64 = True"
| "isFloat _ = False"

definition CanConvert :: "val \<Rightarrow> gotype \<Rightarrow> bool" where
  "CanConvert x T =
     (let s = typeOf x in
      if isInteger s then isInteger T \<or> isFloat T \<or> T = TString
      else if isFloat s then isInteger T \<or> isFloat T
      else s = T)"

section \<open>The store\<close>

type_synonym ConfigType = int

definition Json :: ConfigType where
  "Json = 0"

definition Line :: ConfigType where
  "Line = 1"

text \<open>
  The fields of the struct are exported, and the mutex is left out: the model is of one
  caller. The map of a store that \<open>LoadConfigFile\<close> returns is nil when the JSON
  decoder made it so; the zero \<open>Config\<close> has a nil map too.
\<close>

record Config =
  Config :: gomap
  Filepath :: string
  Type :: ConfigType

text \<open>\<open>Config.Get\<close>: the value and whether the key is present, as an option.\<close>

definition Config_Get :: "Config \<Rightarrow> string \<Rightarrow> iface option" where
  "Config_Get c key = lookup (Config c) key"

text \<open>
  \<open>Config.Put\<close>: the assignment \<open>c.Config[key] = val\<close> panics on a nil map. The panic
  happens between \<open>Lock\<close> and \<open>Unlock\<close>, so the store is left locked; a call that
  panics has no resulting store in the model.
\<close>

definition Config_Put :: "Config \<Rightarrow> string \<Rightarrow> iface \<Rightarrow> Config outcome" where
  "Config_Put c key v =
     (case Config c of
        None \<Rightarrow> Panics
      | Some entries \<Rightarrow> Returns (c\<lparr>Config := Some (entries(key \<mapsto> v))\<rparr>))"

section \<open>Typed keys\<close>

text \<open>
  \<open>Key[T]{Key, Default}\<close>. The type argument \<open>T\<close> is the type of the default, which is
  a value of \<open>T\<close> and so never a nil interface.
\<close>

record Key =
  Key :: string
  Default :: val

definition T :: "Key \<Rightarrow> gotype" where
  "T k = typeOf (Default k)"

text \<open>
  \<open>Key[T].Get\<close>. The type switch returns from its first case when the dynamic type is
  \<open>T\<close>, and from the bool and string cases when their inner test holds; every other
  path falls out of the switch to the \<open>reflect\<close> conversion. \<open>reflect.ValueOf\<close> of a
  nil interface is the zero \<open>Value\<close>, on which \<open>CanConvert\<close> panics. The final type
  assertion \<open>.(T)\<close> panics unless the converted value has type \<open>T\<close>.
\<close>

definition Key_Get :: "golib \<Rightarrow> Key \<Rightarrow> Config \<Rightarrow> val outcome" where
  "Key_Get L k c =
     (case Config_Get c (Key k) of
        None \<Rightarrow> Returns (Default k)
      | Some v \<Rightarrow>
          (case (case v of
                   NilIface \<Rightarrow> None
                 | Iface x \<Rightarrow>
                     if typeOf x = T k then Some x
                     else (case x of
                             VBool b \<Rightarrow>
                               if T k = TString then Some (VString (FormatBool b)) else None
                           | VString s \<Rightarrow>
                               if T k = TBool
                               then (case ParseBool s of
                                       Some b \<Rightarrow> Some (VBool b)
                                     | None \<Rightarrow> None)
                               else None
                           | _ \<Rightarrow> None))
           of
             Some r \<Rightarrow> Returns r
           | None \<Rightarrow>
               (case v of
                  NilIface \<Rightarrow> Panics
                | Iface x \<Rightarrow>
                    if CanConvert x (T k)
                    then (let r = Convert L x (T k)
                          in if typeOf r = T k then Returns r else Panics)
                    else Returns (Default k))))"

text \<open>
  \<open>Key[T].GetErr\<close>: the same statements, with an error where \<open>Get\<close> returns the
  default. The zero value that accompanies the error is not modelled.
\<close>

definition Key_GetErr :: "golib \<Rightarrow> Key \<Rightarrow> Config \<Rightarrow> (error + val) outcome" where
  "Key_GetErr L k c =
     (case Config_Get c (Key k) of
        None \<Rightarrow> Returns (Inl ErrKeyNotFound)
      | Some v \<Rightarrow>
          (case (case v of
                   NilIface \<Rightarrow> None
                 | Iface x \<Rightarrow>
                     if typeOf x = T k then Some x
                     else (case x of
                             VBool b \<Rightarrow>
                               if T k = TString then Some (VString (FormatBool b)) else None
                           | VString s \<Rightarrow>
                               if T k = TBool
                               then (case ParseBool s of
                                       Some b \<Rightarrow> Some (VBool b)
                                     | None \<Rightarrow> None)
                               else None
                           | _ \<Rightarrow> None))
           of
             Some r \<Rightarrow> Returns (Inr r)
           | None \<Rightarrow>
               (case v of
                  NilIface \<Rightarrow> Panics
                | Iface x \<Rightarrow>
                    if CanConvert x (T k)
                    then (let r = Convert L x (T k)
                          in if typeOf r = T k then Returns (Inr r) else Panics)
                    else Returns (Inl (ErrCast (T k) (typeOf x))))))"

definition Key_Put :: "Key \<Rightarrow> Config \<Rightarrow> val \<Rightarrow> Config outcome" where
  "Key_Put k c v = Config_Put c (Key k) (Iface v)"

text \<open>
  \<open>Key[T].Sync\<close>: the store it leaves when it returns. It panics when \<open>GetErr\<close>
  panics, and when \<open>GetErr\<close> returns an error and the \<open>Put\<close> of the default panics.
\<close>

definition Key_Sync :: "golib \<Rightarrow> Key \<Rightarrow> Config \<Rightarrow> Config outcome" where
  "Key_Sync L k c =
     (case Key_GetErr L k c of
        Panics \<Rightarrow> Panics
      | Returns (Inl err) \<Rightarrow> Key_Put k c (Default k)
      | Returns (Inr v) \<Rightarrow> Returns c)"

subsection \<open>Timestamp keys\<close>

record TimeKey =
  tk_Key :: string
  tk_Default :: timestamp

text \<open>
  \<open>TimeKey.Get\<close> reads the entry through a \<open>Key[string]\<close> with the empty default and
  parses the string. \<open>GetErr\<close> of a \<open>Key[string]\<close> returns a string, so the last case
  of the model is not reachable (lemma \<open>Key_GetErr_type\<close>).
\<close>

definition TimeKey_Get :: "golib \<Rightarrow> TimeKey \<Rightarrow> Config \<Rightarrow> timestamp outcome" where
  "TimeKey_Get L k c =
     (case Key_GetErr L \<lparr>Key = tk_Key k, Default = VString []\<rparr> c of
        Panics \<Rightarrow> Panics
      | Returns (Inl err) \<Rightarrow> Returns (tk_Default k)
      | Returns (Inr (VString str)) \<Rightarrow>
          (case UnmarshalText L str of
             Inl err \<Rightarrow> Returns (tk_Default k)
           | Inr t \<Rightarrow> Returns t)
      | Returns (Inr _) \<Rightarrow> Panics)"

definition TimeKey_GetErr :: "golib \<Rightarrow> TimeKey \<Rightarrow> Config \<Rightarrow> (error + timestamp) outcome" where
  "TimeKey_GetErr L k c =
     (case Key_GetErr L \<lparr>Key = tk_Key k, Default = VString []\<rparr> c of
        Panics \<Rightarrow> Panics
      | Returns (Inl err) \<Rightarrow> Returns (Inl err)
      | Returns (Inr (VString str)) \<Rightarrow> Returns (UnmarshalText L str)
      | Returns (Inr _) \<Rightarrow> Panics)"

definition TimeKey_Put :: "TimeKey \<Rightarrow> Config \<Rightarrow> timestamp \<Rightarrow> Config outcome" where
  "TimeKey_Put k c v = Config_Put c (tk_Key k) (Iface (VTime v))"

section \<open>The file system\<close>

text \<open>
  A path names a regular file with its bytes, or a node on which \<open>os.Open\<close> and
  \<open>os.Create\<close> fail with the given error; an unused path does not exist. A file
  system may limit the size of a file: a write beyond the limit stores the bytes that
  fit and reports \<open>ENOSPC\<close>. Reading an opened file does not fail in the model.
\<close>

datatype node = File string | Denied errno

record filesys =
  nodes :: "string \<rightharpoonup> node"
  quota :: "nat option"

definition os_Open :: "filesys \<Rightarrow> string \<Rightarrow> errno + string" where
  "os_Open fs p =
     (case nodes fs p of
        None \<Rightarrow> Inl ENOENT
      | Some (Denied e) \<Rightarrow> Inl e
      | Some (File s) \<Rightarrow> Inr s)"

definition IsNotExist :: "errno \<Rightarrow> bool" where
  "IsNotExist e = (e = ENOENT)"

definition os_Create :: "filesys \<Rightarrow> string \<Rightarrow> errno + filesys" where
  "os_Create fs p =
     (case nodes fs p of
        Some (Denied e) \<Rightarrow> Inl e
      | _ \<Rightarrow> Inr (fs\<lparr>nodes := (nodes fs)(p \<mapsto> File [])\<rparr>))"

text \<open>\<open>f.Write(b)\<close> on the file created at \<open>p\<close>: the new file system and the error.\<close>

definition os_Write :: "filesys \<Rightarrow> string \<Rightarrow> string \<Rightarrow> filesys \<times> errno option" where
  "os_Write fs p b =
     (case nodes fs p of
        Some (File s) \<Rightarrow>
          (case quota fs of
             None \<Rightarrow> (fs\<lparr>nodes := (nodes fs)(p \<mapsto> File (s @ b))\<rparr>, None)
           | Some q \<Rightarrow>
               if length s + length b \<le> q
               then (fs\<lparr>nodes := (nodes fs)(p \<mapsto> File (s @ b))\<rparr>, None)
               else (fs\<lparr>nodes := (nodes fs)(p \<mapsto> File (s @ take (q - length s) b))\<rparr>,
                     Some ENOSPC))
      | _ \<Rightarrow> (fs, Some EIO))"

section \<open>The line format\<close>

definition LF :: char where
  "LF = CHR 0x0A"

definition CR :: char where
  "CR = CHR 0x0D"

subsection \<open>Reading\<close>

text \<open>
  \<open>bufio.Scanner\<close> with its default split function \<open>ScanLines\<close> and its default
  buffer: a token is the text up to the next line feed, or up to the end of input when
  that text is not empty, without one trailing carriage return. A line that does not fit
  the buffer of \<open>MaxScanTokenSize\<close> bytes together with its line feed ends the scan
  with \<open>ErrTooLong\<close>. The state of the scanner is the input not yet consumed.
\<close>

definition MaxScanTokenSize :: nat where
  "MaxScanTokenSize = 64 * 1024"

datatype scan = Token string string | Stop "error option"

definition dropCR :: "string \<Rightarrow> string" where
  "dropCR l = (if l \<noteq> [] \<and> last l = CR then butlast l else l)"

definition Scan :: "string \<Rightarrow> scan" where
  "Scan s =
     (if s = [] then Stop None
      else (let l = takeWhile (\<lambda>ch. ch \<noteq> LF) s; r = dropWhile (\<lambda>ch. ch \<noteq> LF) s
            in if MaxScanTokenSize \<le> length l then Stop (Some ErrTooLong)
               else Token (dropCR l) (tl r)))"

definition HasPrefix :: "string \<Rightarrow> string \<Rightarrow> bool" where
  "HasPrefix s prefix = (take (length prefix) s = prefix)"

text \<open>\<open>strings.SplitN(s, "=", 2)\<close>: cut at the first \<open>=\<close>, if there is one.\<close>

definition SplitN_2 :: "string \<Rightarrow> string list" where
  "SplitN_2 s =
     (if CHR ''='' \<in> set s
      then [takeWhile (\<lambda>ch. ch \<noteq> CHR ''='') s, tl (dropWhile (\<lambda>ch. ch \<noteq> CHR ''='') s)]
      else [s])"

text \<open>The body of the loop of \<open>parseFileLine\<close>, for one token.\<close>

definition parseLine :: "golib \<Rightarrow> (string \<rightharpoonup> iface) \<Rightarrow> string \<Rightarrow> (string \<rightharpoonup> iface)" where
  "parseLine L m token =
     (if HasPrefix token ''#'' then m
      else (case SplitN_2 token of
              [a, b] \<Rightarrow>
                (case ParseFloat L b of
                   Some f \<Rightarrow> m(a \<mapsto> Iface (VFloat64 f))
                 | None \<Rightarrow> m(a \<mapsto> Iface (VString b)))
            | _ \<Rightarrow> m))"

function parseLoop ::
  "golib \<Rightarrow> (string \<rightharpoonup> iface) \<Rightarrow> string \<Rightarrow> (string \<rightharpoonup> iface) \<times> error option" where
  "parseLoop L m s =
     (case Scan s of
        Stop e \<Rightarrow> (m, e)
      | Token token s' \<Rightarrow> parseLoop L (parseLine L m token) s')"
  by pat_completeness auto
termination
proof (relation "measure (\<lambda>(L, m, s). length s)")
  show "wf (measure (\<lambda>(L, m, s). length s))"
    by simp
next
  fix L :: golib and m :: "string \<rightharpoonup> iface" and s token s'
  assume "Scan s = Token token s'"
  then have "s \<noteq> []" and "s' = tl (dropWhile (\<lambda>ch. ch \<noteq> LF) s)"
    by (auto simp: Scan_def Let_def split: if_splits)
  moreover have "length (dropWhile (\<lambda>ch. ch \<noteq> LF) s) \<le> length s"
    by (rule length_dropWhile_le)
  ultimately have "length s' < length s"
    by (cases "dropWhile (\<lambda>ch. ch \<noteq> LF) s") auto
  then show "((L, parseLine L m token, s'), (L, m, s)) \<in> measure (\<lambda>(L, m, s). length s)"
    by simp
qed

declare parseLoop.simps [simp del]

text \<open>\<open>parseFileLine\<close> makes a map and fills it, so the map it returns is not nil.\<close>

definition parseFileLine :: "golib \<Rightarrow> string \<Rightarrow> gomap \<times> error option" where
  "parseFileLine L f = (case parseLoop L Map.empty f of (m, err) \<Rightarrow> (Some m, err))"

definition parseFileJSON :: "golib \<Rightarrow> string \<Rightarrow> gomap \<times> error option" where
  "parseFileJSON L f = jsonDecode L f"

subsection \<open>Writing\<close>

text \<open>The decimal rendering of an integer by \<open>%v\<close>.\<close>

fun digits :: "nat \<Rightarrow> string" where
  "digits n =
     (if n < 10 then [char_of (48 + n)]
      else digits (n div 10) @ [char_of (48 + n mod 10)])"

declare digits.simps [simp del]

definition FormatInt :: "int \<Rightarrow> string" where
  "FormatInt i = (if i < 0 then CHR ''-'' # digits (nat (- i)) else digits (nat i))"

text \<open>
  The kind switch of \<open>writeFileLine\<close> together with the \<open>%v\<close> rendering of the value:
  \<open>None\<close> for the kinds that the switch skips.
\<close>

fun Sprint_v :: "golib \<Rightarrow> val \<Rightarrow> string option" where
  "Sprint_v L (VString s) = Some s"
| "Sprint_v L (VBool b) = Some (FormatBool b)"
| "Sprint_v L (VInteger t n) = Some (FormatInt n)"
| "Sprint_v L (VFloat32 w) = Some (FormatFloat32 L w)"
| "Sprint_v L (VFloat64 w) = Some (FormatFloat64 L w)"
| "Sprint_v L (VSlice xs) = None"
| "Sprint_v L (VMap kvs) = None"
| "Sprint_v L (VTime t) = None"

text \<open>
  \<open>writeFileLine\<close>. The order in which \<open>range\<close> visits the keys of a Go map is not
  specified, so it is an argument: the list \<open>rng\<close> of the keys in the order of the
  visit (a name that is not a key of the map is passed over, so nothing is visited in a
  nil map). \<open>reflect.TypeOf\<close> of a nil interface is nil, and \<open>rt.Kind()\<close> on it panics.
  The result of \<open>f.Write\<close> is discarded, and the function returns nil.
\<close>

fun writeFileLine ::
  "golib \<Rightarrow> filesys \<Rightarrow> string \<Rightarrow> gomap \<Rightarrow> string list
     \<Rightarrow> error option outcome \<times> filesys" where
  "writeFileLine L fs p m [] = (Returns None, fs)"
| "writeFileLine L fs p m (k # rng) =
     (case lookup m k of
        None \<Rightarrow> writeFileLine L fs p m rng
      | Some NilIface \<Rightarrow> (Panics, fs)
      | Some (Iface v) \<Rightarrow>
          (case Sprint_v L v of
             None \<Rightarrow> writeFileLine L fs p m rng
           | Some str \<Rightarrow>
               writeFileLine L (fst (os_Write fs p (k @ ''='' @ str @ [LF]))) p m rng))"

definition writeFileJSON ::
  "golib \<Rightarrow> filesys \<Rightarrow> string \<Rightarrow> gomap \<Rightarrow> error option \<times> filesys" where
  "writeFileJSON L fs p m =
     (case jsonEncode L m of
        Inl err \<Rightarrow> (Some err, fs)
      | Inr b \<Rightarrow>
          (case os_Write fs p b of
             (fs', None) \<Rightarrow> (None, fs')
           | (fs', Some e) \<Rightarrow> (Some (PathError e), fs')))"

section \<open>Loading and saving\<close>

text \<open>
  \<open>LoadConfigFile\<close> returns a store pointer (\<open>None\<close> is nil) and an error (\<open>None\<close>
  is nil).
\<close>

definition LoadConfigFile ::
  "golib \<Rightarrow> filesys \<Rightarrow> string \<Rightarrow> ConfigType \<Rightarrow> Config option \<times> error option" where
  "LoadConfigFile L fs filepath configType =
     (let config = \<lparr>Config = Some Map.empty, Filepath = filepath, Type = configType\<rparr>
      in case os_Open fs filepath of
           Inl err \<Rightarrow>
             if IsNotExist err then (Some config, None) else (None, Some (PathError err))
         | Inr f \<Rightarrow>
             if configType = Json
             then (case parseFileLine L f of (m, err) \<Rightarrow> (Some (config\<lparr>Config := m\<rparr>), err))
             else if configType = Line
             then (case parseFileLine L f of (m, err) \<Rightarrow> (Some (config\<lparr>Config := m\<rparr>), err))
             else (case parseFileJSON L f of
                     (m, err) \<Rightarrow> (Some (config\<lparr>Type := Json, Config := m\<rparr>), err)))"

text \<open>
  \<open>SaveFile\<close> returns its error or panics, and leaves a file system and a store
  (whose \<open>Type\<close> the default case rewrites).
\<close>

definition SaveFile ::
  "golib \<Rightarrow> string list \<Rightarrow> filesys \<Rightarrow> Config \<Rightarrow> error option outcome \<times> filesys \<times> Config" where
  "SaveFile L rng fs c =
     (case os_Create fs (Filepath c) of
        Inl err \<Rightarrow> (Returns (Some (PathError err)), fs, c)
      | Inr fs1 \<Rightarrow>
          if Type c = Json
          then (case writeFileLine L fs1 (Filepath c) (Config c) rng of
                  (err, fs2) \<Rightarrow> (err, fs2, c))
          else if Type c = Line
          then (case writeFileLine L fs1 (Filepath c) (Config c) rng of
                  (err, fs2) \<Rightarrow> (err, fs2, c))
          else (case writeFileJSON L fs1 (Filepath c) (Config c) of
                  (err, fs2) \<Rightarrow> (Returns err, fs2, c\<lparr>Type := Json\<rparr>)))"

section \<open>Conditions and concrete inputs used by the theorems\<close>

text \<open>The bytes that \<open>writeFileLine\<close> sends to the file, in the order of the visit.\<close>

fun lines_of :: "golib \<Rightarrow> gomap \<Rightarrow> string list \<Rightarrow> string" where
  "lines_of L m [] = []"
| "lines_of L m (k # rng) =
     (case lookup m k of
        Some (Iface v) \<Rightarrow>
          (case Sprint_v L v of
             Some str \<Rightarrow> k @ ''='' @ str @ [LF]
           | None \<Rightarrow> [])
      | _ \<Rightarrow> []) @ lines_of L m rng"

text \<open>
  A mapping survives the line format when no visited entry is nil and every entry that
  is written has a key without \<open>=\<close> and makes a line without a line feed that fits
  the scanner's buffer.
\<close>

definition line_safe :: "golib \<Rightarrow> gomap \<Rightarrow> string list \<Rightarrow> bool" where
  "line_safe L m rng =
     (\<forall>k \<in> set rng.
        case lookup m k of
          None \<Rightarrow> True
        | Some NilIface \<Rightarrow> False
        | Some (Iface v) \<Rightarrow>
            (case Sprint_v L v of
               None \<Rightarrow> True
             | Some str \<Rightarrow>
                 CHR ''='' \<notin> set k \<and> LF \<notin> set (k @ str)
                   \<and> length (k @ ''='' @ str) < MaxScanTokenSize))"

text \<open>
  A small instance of the library, for evaluating the model on concrete inputs: it reads
  and prints the float 3.14 (bit pattern \<open>pi64\<close>), converts between integer types
  values that fit, rejects every timestamp, and of JSON knows only the text \<open>null\<close>.
\<close>

definition pi64 :: "64 word" where
  "pi64 = 0x40091EB851EB851F"

definition lib0 :: golib where
  "lib0 =
     \<lparr>ParseFloat = (\<lambda>s. if s = ''3.14'' then Some pi64 else None),
      FormatFloat32 = (\<lambda>w. ''0''),
      FormatFloat64 = (\<lambda>w. if w = pi64 then ''3.14'' else ''0''),
      Convert = (\<lambda>x ty. case (x, ty) of
                   (VInteger s n, TInteger t) \<Rightarrow> VInteger t n
                 | _ \<Rightarrow> x),
      UnmarshalText = (\<lambda>s. Inl (LibError ''time'')),
      jsonDecode = (\<lambda>s. if s = ''null'' then (None, None)
                         else (Some Map.empty, Some (LibError ''json''))),
      jsonEncode = (\<lambda>m. Inl (LibError ''json''))\<rparr>"

definition no_files :: filesys where
  "no_files = \<lparr>nodes = Map.empty, quota = None\<rparr>"

text \<open>The bytes of the JSON text \<open>{"a":true}\<close>.\<close>

definition json_object :: string where
  "json_object = ''{'' @ [CHR 0x22] @ ''a'' @ [CHR 0x22] @ '':true}''"

section \<open>Typed keys: absence, coercion, coherence, synchronisation\<close>

lemma Key_GetErr_type:
  "Key_GetErr L k c = Returns (Inr v) \<Longrightarrow> typeOf v = T k"
  by (auto simp: Key_GetErr_def Let_def
      split: option.splits iface.splits val.splits if_splits)

lemma Config_Put_map:
  "Config c = Some m \<Longrightarrow> Config_Put c key v = Returns (c\<lparr>Config := Some (m(key \<mapsto> v))\<rparr>)"
  by (simp add: Config_Put_def)

lemma Config_Put_nil:
  "Config c = None \<Longrightarrow> Config_Put c key v = Panics"
  by (simp add: Config_Put_def)

lemma Config_Get_after_Put:
  "Config_Put c key v = Returns c' \<Longrightarrow> Config_Get c' key = Some v"
  by (auto simp: Config_Put_def Config_Get_def lookup_def split: option.splits)

lemma GetErr_after_Put:
  "typeOf v = T k \<Longrightarrow> Key_Put k c v = Returns c' \<Longrightarrow> Key_GetErr L k c' = Returns (Inr v)"
  by (simp add: Key_GetErr_def Key_Put_def Config_Get_after_Put)

text \<open>
  C6. When the name of a typed key is not in the store, \<open>Get\<close> returns the key's default
  and \<open>GetErr\<close> returns the error \<open>ErrKeyNotFound\<close>.
\<close>

theorem Key_absent:
  "Config_Get c (Key k) = None \<Longrightarrow>
     Key_Get L k c = Returns (Default k) \<and> Key_GetErr L k c = Returns (Inl ErrKeyNotFound)"
  by (simp add: Key_Get_def Key_GetErr_def)

theorem Key_absent_witness:
  "Config_Get \<lparr>Config = Some Map.empty, Filepath = ''c.cfg'', Type = Line\<rparr> ''port'' = None \<and>
   Key_Get lib0 \<lparr>Key = ''port'', Default = VInteger KInt 8080\<rparr>
      \<lparr>Config = Some Map.empty, Filepath = ''c.cfg'', Type = Line\<rparr> = Returns (VInteger KInt 8080) \<and>
   Key_GetErr lib0 \<lparr>Key = ''port'', Default = VInteger KInt 8080\<rparr>
      \<lparr>Config = Some Map.empty, Filepath = ''c.cfg'', Type = Line\<rparr> = Returns (Inl ErrKeyNotFound)"
  using Key_absent [where c = "\<lparr>Config = Some Map.empty, Filepath = ''c.cfg'', Type = Line\<rparr>"
      and k = "\<lparr>Key = ''port'', Default = VInteger KInt 8080\<rparr>" and L = lib0]
  by (simp add: Config_Get_def lookup_def)

text \<open>
  C7. After a boolean is stored under a name, a string key of that name with the empty
  default reads \<open>"true"\<close> or \<open>"false"\<close>; after a string that \<open>ParseBool\<close> accepts
  is stored, a boolean key of that name reads the parsed boolean, whatever its default;
  in particular the string \<open>"false"\<close> read through a boolean key with default true is
  false. The store that is read is the one that \<open>Put\<close> returns with.
\<close>

theorem bool_string_bridge:
  "(Config_Put c n (Iface (VBool True)) = Returns c1 \<longrightarrow>
      Key_Get L \<lparr>Key = n, Default = VString []\<rparr> c1 = Returns (VString ''true'')) \<and>
   (Config_Put c n (Iface (VBool False)) = Returns c2 \<longrightarrow>
      Key_Get L \<lparr>Key = n, Default = VString []\<rparr> c2 = Returns (VString ''false'')) \<and>
   (Config_Put c n (Iface (VString ''false'')) = Returns c3 \<longrightarrow>
      Key_Get L \<lparr>Key = n, Default = VBool True\<rparr> c3 = Returns (VBool False)) \<and>
   (ParseBool s = Some b \<longrightarrow> Config_Put c n (Iface (VString s)) = Returns c4 \<longrightarrow>
      Key_Get L \<lparr>Key = n, Default = VBool d\<rparr> c4 = Returns (VBool b))"
proof -
  have get: "Config_Put c n v = Returns c' \<Longrightarrow> Config_Get c' n = Some v" for v c'
    by (rule Config_Get_after_Put)
  show ?thesis
    by (auto simp: Key_Get_def get T_def FormatBool_def ParseBool_def)
qed

theorem bool_string_bridge_witness:
  "Config_Put \<lparr>Config = Some Map.empty, Filepath = ''c.cfg'', Type = Line\<rparr> ''debug'' (Iface (VBool True)) = Returns \<lparr>Config = Some [''debug'' \<mapsto> Iface (VBool True)], Filepath = ''c.cfg'', Type = Line\<rparr> \<and>
   Key_Get lib0 \<lparr>Key = ''debug'', Default = VString []\<rparr> \<lparr>Config = Some [''debug'' \<mapsto> Iface (VBool True)], Filepath = ''c.cfg'', Type = Line\<rparr> = Returns (VString ''true'') \<and>
   Config_Put \<lparr>Config = Some Map.empty, Filepath = ''c.cfg'', Type = Line\<rparr> ''debug'' (Iface (VBool False)) = Returns \<lparr>Config = Some [''debug'' \<mapsto> Iface (VBool False)], Filepath = ''c.cfg'', Type = Line\<rparr> \<and>
   Key_Get lib0 \<lparr>Key = ''debug'', Default = VString []\<rparr> \<lparr>Config = Some [''debug'' \<mapsto> Iface (VBool False)], Filepath = ''c.cfg'', Type = Line\<rparr> = Returns (VString ''false'') \<and>
   Config_Put \<lparr>Config = Some Map.empty, Filepath = ''c.cfg'', Type = Line\<rparr> ''debug'' (Iface (VString ''false'')) = Returns \<lparr>Config = Some [''debug'' \<mapsto> Iface (VString ''false'')], Filepath = ''c.cfg'', Type = Line\<rparr> \<and>
   Key_Get lib0 \<lparr>Key = ''debug'', Default = VBool True\<rparr> \<lparr>Config = Some [''debug'' \<mapsto> Iface (VString ''false'')], Filepath = ''c.cfg'', Type = Line\<rparr> = Returns (VBool False) \<and>
   ParseBool ''T'' = Some True \<and>
   Config_Put \<lparr>Config = Some Map.empty, Filepath = ''c.cfg'', Type = Line\<rparr> ''debug'' (Iface (VString ''T'')) = Returns \<lparr>Config = Some [''debug'' \<mapsto> Iface (VString ''T'')], Filepath = ''c.cfg'', Type = Line\<rparr> \<and>
   Key_Get lib0 \<lparr>Key = ''debug'', Default = VBool False\<rparr> \<lparr>Config = Some [''debug'' \<mapsto> Iface (VString ''T'')], Filepath = ''c.cfg'', Type = Line\<rparr> = Returns (VBool True)"
  using bool_string_bridge [where L = lib0 and n = "''debug''" and c = "\<lparr>Config = Some Map.empty, Filepath = ''c.cfg'', Type = Line\<rparr>"
      and ?c1.0 = "\<lparr>Config = Some [''debug'' \<mapsto> Iface (VBool True)], Filepath = ''c.cfg'', Type = Line\<rparr>"
      and ?c2.0 = "\<lparr>Config = Some [''debug'' \<mapsto> Iface (VBool False)], Filepath = ''c.cfg'', Type = Line\<rparr>"
      and ?c3.0 = "\<lparr>Config = Some [''debug'' \<mapsto> Iface (VString ''false'')], Filepath = ''c.cfg'', Type = Line\<rparr>"
      and s = "''T''" and b = True and d = False
      and ?c4.0 = "\<lparr>Config = Some [''debug'' \<mapsto> Iface (VString ''T'')], Filepath = ''c.cfg'', Type = Line\<rparr>"]
  by (simp add: ParseBool_def Config_Put_def)

text \<open>
  C10. \<open>Get\<close> and \<open>GetErr\<close> agree: when \<open>GetErr\<close> returns a value, \<open>Get\<close> returns
  that value; when \<open>GetErr\<close> returns an error, \<open>Get\<close> returns the default; and one
  panics exactly when the other does.
\<close>

theorem Get_GetErr_coherent:
  "Key_Get L k c =
     (case Key_GetErr L k c of
        Panics \<Rightarrow> Panics
      | Returns (Inl err) \<Rightarrow> Returns (Default k)
      | Returns (Inr v) \<Rightarrow> Returns v)"
  by (simp add: Key_Get_def Key_GetErr_def Let_def
      split: option.splits iface.splits val.splits)

theorem Get_GetErr_coherent_witness:
  "Key_GetErr lib0 \<lparr>Key = ''port'', Default = VInteger KInt 8080\<rparr>
      \<lparr>Config = Some [''port'' \<mapsto> Iface (VInteger KInt64 443)], Filepath = ''c.cfg'', Type = Line\<rparr>
     = Returns (Inr (VInteger KInt 443)) \<and>
   Key_Get lib0 \<lparr>Key = ''port'', Default = VInteger KInt 8080\<rparr>
      \<lparr>Config = Some [''port'' \<mapsto> Iface (VInteger KInt64 443)], Filepath = ''c.cfg'', Type = Line\<rparr>
     = Returns (VInteger KInt 443) \<and>
   Key_GetErr lib0 \<lparr>Key = ''port'', Default = VInteger KInt 8080\<rparr>
      \<lparr>Config = Some [''port'' \<mapsto> Iface (VBool True)], Filepath = ''c.cfg'', Type = Line\<rparr>
     = Returns (Inl (ErrCast (TInteger KInt) TBool)) \<and>
   Key_Get lib0 \<lparr>Key = ''port'', Default = VInteger KInt 8080\<rparr>
      \<lparr>Config = Some [''port'' \<mapsto> Iface (VBool True)], Filepath = ''c.cfg'', Type = Line\<rparr>
     = Returns (VInteger KInt 8080)"
  using Get_GetErr_coherent [where L = lib0
      and k = "\<lparr>Key = ''port'', Default = VInteger KInt 8080\<rparr>"
      and c = "\<lparr>Config = Some [''port'' \<mapsto> Iface (VInteger KInt64 443)], Filepath = ''c.cfg'', Type = Line\<rparr>"]
    Get_GetErr_coherent [where L = lib0
      and k = "\<lparr>Key = ''port'', Default = VInteger KInt 8080\<rparr>"
      and c = "\<lparr>Config = Some [''port'' \<mapsto> Iface (VBool True)], Filepath = ''c.cfg'', Type = Line\<rparr>"]
  by (simp add: Key_GetErr_def Config_Get_def lookup_def T_def CanConvert_def lib0_def)

text \<open>
  On a store whose map is not nil, \<open>Sync\<close> stores the default exactly when \<open>GetErr\<close>
  returns an error, and a \<open>Sync\<close> after a \<open>Sync\<close> that returned changes nothing.
\<close>

lemma Sync_on_map:
  "Config c = Some m \<Longrightarrow>
     Key_Sync L k c =
       (case Key_GetErr L k c of
          Panics \<Rightarrow> Panics
        | Returns (Inl err) \<Rightarrow> Returns (c\<lparr>Config := Some (m(Key k \<mapsto> Iface (Default k)))\<rparr>)
        | Returns (Inr v) \<Rightarrow> Returns c)"
  by (simp add: Key_Sync_def Key_Put_def Config_Put_map split: outcome.splits sum.splits)

lemma Sync_twice:
  "Key_Sync L k c = Returns c' \<Longrightarrow> Key_Sync L k c' = Returns c'"
  by (auto simp: Key_Sync_def GetErr_after_Put T_def split: outcome.splits sum.splits)

text \<open>
  C8. On a store whose map is nil, \<open>GetErr\<close> returns the error \<open>ErrKeyNotFound\<close> and
  \<open>Sync\<close> panics in its \<open>Put\<close> instead of storing the default. \<open>LoadConfigFile\<close>
  returns such a store, with the nil error, for an unrecognised codec kind and a file
  that holds the JSON text \<open>null\<close>.
\<close>

theorem Sync_nil_map_panics:
  "Key_GetErr L k \<lparr>Config = None, Filepath = p, Type = ty\<rparr> = Returns (Inl ErrKeyNotFound) \<and>
   Key_Sync L k \<lparr>Config = None, Filepath = p, Type = ty\<rparr> = Panics \<and>
   LoadConfigFile lib0 \<lparr>nodes = [''c.json'' \<mapsto> File ''null''], quota = None\<rparr> ''c.json'' 2
     = (Some \<lparr>Config = None, Filepath = ''c.json'', Type = Json\<rparr>, None)"
  by (simp add: Key_GetErr_def Key_Sync_def Key_Put_def Config_Put_def Config_Get_def
      lookup_def LoadConfigFile_def os_Open_def Json_def Line_def parseFileJSON_def lib0_def)

text \<open>
  C3. \<open>TimeKey.Put\<close> stores the \<open>time.Time\<close> value itself: on a store whose map is
  not nil the stored value has the type \<open>time.Time\<close>, not string, and a
  \<open>TimeKey.Get\<close> on the store right after the \<open>Put\<close> does not read it back but
  returns the key's default.
\<close>

theorem TimeKey_Put_stores_struct:
  "TimeKey_Put k \<lparr>Config = Some m, Filepath = p, Type = ty\<rparr> v
     = Returns \<lparr>Config = Some (m(tk_Key k \<mapsto> Iface (VTime v))), Filepath = p, Type = ty\<rparr> \<and>
   Config_Get \<lparr>Config = Some (m(tk_Key k \<mapsto> Iface (VTime v))), Filepath = p, Type = ty\<rparr>
      (tk_Key k) = Some (Iface (VTime v)) \<and>
   typeOf (VTime v) = TTime \<and>
   TimeKey_Get L k \<lparr>Config = Some (m(tk_Key k \<mapsto> Iface (VTime v))), Filepath = p, Type = ty\<rparr>
     = Returns (tk_Default k)"
  by (simp add: TimeKey_Put_def TimeKey_Get_def Key_GetErr_def Config_Get_def Config_Put_def
      lookup_def T_def CanConvert_def)

section \<open>Loading and saving files\<close>

text \<open>
  C5. When \<open>os.Open\<close> reports that the path does not exist, \<open>LoadConfigFile\<close> returns,
  for every codec kind, a store with the empty mapping and the nil error, and \<open>Get\<close> on
  that store finds no key.
\<close>

theorem Load_missing_file:
  "os_Open fs p = Inl err \<Longrightarrow> IsNotExist err \<Longrightarrow>
     LoadConfigFile L fs p ty
       = (Some \<lparr>Config = Some Map.empty, Filepath = p, Type = ty\<rparr>, None) \<and>
     Config_Get \<lparr>Config = Some Map.empty, Filepath = p, Type = ty\<rparr> key = None"
  by (simp add: LoadConfigFile_def Config_Get_def lookup_def)

theorem Load_missing_file_witness:
  "os_Open no_files ''/tmp/does-not-exist.cfg'' = Inl ENOENT \<and> IsNotExist ENOENT \<and>
   LoadConfigFile lib0 no_files ''/tmp/does-not-exist.cfg'' Line
     = (Some \<lparr>Config = Some Map.empty, Filepath = ''/tmp/does-not-exist.cfg'', Type = Line\<rparr>,
        None) \<and>
   Config_Get \<lparr>Config = Some Map.empty, Filepath = ''/tmp/does-not-exist.cfg'', Type = Line\<rparr>
      ''port'' = None"
  using Load_missing_file [where fs = no_files and p = "''/tmp/does-not-exist.cfg''"
      and err = ENOENT and L = lib0 and ty = Line and key = "''port''"]
  by (simp add: os_Open_def no_files_def IsNotExist_def)

text \<open>
  C1. With the codec kind \<open>Json\<close>, \<open>LoadConfigFile\<close> runs the line parser: a file that
  holds the JSON object \<open>{"a":true}\<close> loads as the empty mapping, whatever the JSON
  decoder makes of it. Only an unrecognised codec kind reaches the JSON decoder.
\<close>

theorem Load_Json_runs_line_parser:
  "LoadConfigFile L \<lparr>nodes = [''c.json'' \<mapsto> File json_object], quota = None\<rparr> ''c.json'' Json
     = (Some \<lparr>Config = Some Map.empty, Filepath = ''c.json'', Type = Json\<rparr>, None) \<and>
   LoadConfigFile L \<lparr>nodes = [''c.json'' \<mapsto> File json_object], quota = None\<rparr> ''c.json'' 2
     = (Some \<lparr>Config = fst (jsonDecode L json_object), Filepath = ''c.json'', Type = Json\<rparr>,
        snd (jsonDecode L json_object))"
  by (simp add: LoadConfigFile_def os_Open_def Json_def Line_def parseFileLine_def
      parseFileJSON_def parseLoop.simps Scan_def json_object_def LF_def MaxScanTokenSize_def
      dropCR_def CR_def parseLine_def HasPrefix_def SplitN_2_def split: prod.splits)

text \<open>
  C2. A store with the codec kind \<open>Json\<close> is saved and loaded through the line format:
  an entry that holds the array \<open>[true]\<close> is not written, so the file is empty and the
  store that is loaded back has no entry.
\<close>

theorem Save_Load_Json_loses_array:
  "SaveFile L [''k''] no_files
      \<lparr>Config = Some [''k'' \<mapsto> Iface (VSlice [Iface (VBool True)])],
       Filepath = ''c.json'', Type = Json\<rparr>
     = (Returns None, \<lparr>nodes = [''c.json'' \<mapsto> File []], quota = None\<rparr>,
        \<lparr>Config = Some [''k'' \<mapsto> Iface (VSlice [Iface (VBool True)])],
         Filepath = ''c.json'', Type = Json\<rparr>) \<and>
   LoadConfigFile L \<lparr>nodes = [''c.json'' \<mapsto> File []], quota = None\<rparr> ''c.json'' Json
     = (Some \<lparr>Config = Some Map.empty, Filepath = ''c.json'', Type = Json\<rparr>, None)"
  by (simp add: SaveFile_def no_files_def os_Create_def Json_def LoadConfigFile_def
      os_Open_def parseFileLine_def parseLoop.simps Scan_def lookup_def)

lemma writeFileLine_no_error:
  "fst (writeFileLine L fs p m rng) = Returns None \<or> fst (writeFileLine L fs p m rng) = Panics"
  by (induction rng arbitrary: fs) (auto split: option.splits iface.splits)

text \<open>
  C4. On a file system with no room, the write of the line \<open>a=b\<close> fails with
  \<open>ENOSPC\<close>, and \<open>SaveFile\<close> of a store with the line codec still returns the nil
  error, leaving an empty file.
\<close>

theorem Save_drops_write_error:
  "os_Write \<lparr>nodes = [''c.cfg'' \<mapsto> File []], quota = Some 0\<rparr> ''c.cfg'' (''a=b'' @ [LF])
     = (\<lparr>nodes = [''c.cfg'' \<mapsto> File []], quota = Some 0\<rparr>, Some ENOSPC) \<and>
   SaveFile L [''a''] \<lparr>nodes = Map.empty, quota = Some 0\<rparr>
      \<lparr>Config = Some [''a'' \<mapsto> Iface (VString ''b'')], Filepath = ''c.cfg'', Type = Line\<rparr>
     = (Returns None, \<lparr>nodes = [''c.cfg'' \<mapsto> File []], quota = Some 0\<rparr>,
        \<lparr>Config = Some [''a'' \<mapsto> Iface (VString ''b'')], Filepath = ''c.cfg'', Type = Line\<rparr>)"
  by (simp add: SaveFile_def os_Create_def os_Write_def Json_def Line_def lookup_def)

section \<open>The line format: a string that looks like a number\<close>

lemma writeFileLine_content:
  "quota fs = None \<Longrightarrow> nodes fs p = Some (File s0) \<Longrightarrow> line_safe L m rng \<Longrightarrow>
     writeFileLine L fs p m rng =
       (Returns None, fs\<lparr>nodes := (nodes fs)(p \<mapsto> File (s0 @ lines_of L m rng))\<rparr>)"
proof (induction rng arbitrary: fs s0)
  case Nil
  then show ?case by (simp add: fun_upd_idem)
next
  case (Cons k rng)
  from Cons.prems(3) have safe: "line_safe L m rng" and nn: "lookup m k \<noteq> Some NilIface"
    by (auto simp: line_safe_def)
  show ?case
  proof (cases "lookup m k")
    case None
    with Cons.IH [OF Cons.prems(1,2) safe] show ?thesis by simp
  next
    case (Some v)
    with nn obtain x where v: "v = Iface x" by (cases v) auto
    show ?thesis
    proof (cases "Sprint_v L x")
      case None
      with Some v Cons.IH [OF Cons.prems(1,2) safe] show ?thesis by simp
    next
      case (Some str)
      let ?b = "k @ ''='' @ str @ [LF]"
      let ?fs = "fs\<lparr>nodes := (nodes fs)(p \<mapsto> File (s0 @ ?b))\<rparr>"
      have w: "fst (os_Write fs p ?b) = ?fs"
        using Cons.prems(1,2) by (simp add: os_Write_def)
      have "writeFileLine L ?fs p m rng =
          (Returns None, ?fs\<lparr>nodes := (nodes ?fs)(p \<mapsto> File ((s0 @ ?b) @ lines_of L m rng))\<rparr>)"
        by (rule Cons.IH) (use Cons.prems(1) safe in simp_all)
      moreover have "?fs\<lparr>nodes := (nodes ?fs)(p \<mapsto> File ((s0 @ ?b) @ lines_of L m rng))\<rparr> =
          fs\<lparr>nodes := (nodes fs)(p \<mapsto> File (s0 @ lines_of L m (k # rng)))\<rparr>"
        using \<open>lookup m k = Some v\<close> v Some by simp
      moreover have "writeFileLine L fs p m (k # rng) = writeFileLine L ?fs p m rng"
        using \<open>lookup m k = Some v\<close> v Some w by simp
      ultimately show ?thesis by (simp only:)
    qed
  qed
qed

lemma Scan_line:
  assumes "LF \<notin> set l" and "length l < MaxScanTokenSize"
  shows "Scan (l @ LF # rest) = Token (dropCR l) rest"
proof -
  have "takeWhile (\<lambda>ch. ch \<noteq> LF) (l @ LF # rest) = l"
    using assms(1) by (induction l) auto
  moreover have "dropWhile (\<lambda>ch. ch \<noteq> LF) (l @ LF # rest) = LF # rest"
    using assms(1) by (induction l) auto
  ultimately show ?thesis
    using assms(2) by (simp add: Scan_def)
qed

lemma parseLoop_line:
  assumes "LF \<notin> set l" and "length l < MaxScanTokenSize"
  shows "parseLoop L m (l @ LF # rest) = parseLoop L (parseLine L m (dropCR l)) rest"
  by (subst parseLoop.simps) (simp add: Scan_line [OF assms])

lemma parseLoop_empty: "parseLoop L m [] = (m, None)"
  by (subst parseLoop.simps) (simp add: Scan_def)

lemma dropCR_line:
  "\<exists>str'. dropCR (k @ CHR ''='' # str) = k @ CHR ''='' # str'"
  by (cases str rule: rev_cases) (auto simp: dropCR_def CR_def butlast_append)

lemma SplitN_2_line:
  "CHR ''='' \<notin> set k \<Longrightarrow> SplitN_2 (k @ CHR ''='' # str) = [k, str]"
proof -
  assume a: "CHR ''='' \<notin> set k"
  have "takeWhile (\<lambda>ch. ch \<noteq> CHR ''='') (k @ CHR ''='' # str) = k"
    using a by (induction k) auto
  moreover have "dropWhile (\<lambda>ch. ch \<noteq> CHR ''='') (k @ CHR ''='' # str) = CHR ''='' # str"
    using a by (induction k) auto
  ultimately show ?thesis by (simp add: SplitN_2_def)
qed

lemma parseLine_other:
  assumes "CHR ''='' \<notin> set k'" and "k' \<noteq> k"
  shows "parseLine L m (dropCR (k' @ CHR ''='' # str)) k = m k"
proof -
  obtain str' where "dropCR (k' @ CHR ''='' # str) = k' @ CHR ''='' # str'"
    using dropCR_line by blast
  then show ?thesis
    using assms by (simp add: parseLine_def SplitN_2_line split: option.splits)
qed

lemma parseLine_value:
  assumes "CHR ''='' \<notin> set k" and "\<not> HasPrefix k ''#''" and "dropCR s = s"
  shows "parseLine L m (dropCR (k @ CHR ''='' # s)) k =
    Some (case ParseFloat L s of Some f \<Rightarrow> Iface (VFloat64 f) | None \<Rightarrow> Iface (VString s))"
proof -
  have d: "dropCR (k @ CHR ''='' # s) = k @ CHR ''='' # s"
    using assms(3) by (cases s rule: rev_cases) (auto simp: dropCR_def CR_def split: if_splits)
  have "\<not> HasPrefix (k @ CHR ''='' # s) ''#''"
    using assms(2) by (cases k) (auto simp: HasPrefix_def)
  then show ?thesis
    using assms(1) by (simp add: d parseLine_def SplitN_2_line split: option.splits)
qed

lemma parseLoop_lines:
  assumes "lookup m k = Some (Iface (VString s))" and "\<not> HasPrefix k ''#''" and "dropCR s = s"
  shows "distinct rng \<Longrightarrow> line_safe L m rng \<Longrightarrow>
     snd (parseLoop L m0 (lines_of L m rng)) = None \<and>
     fst (parseLoop L m0 (lines_of L m rng)) k =
       (if k \<in> set rng
        then Some (case ParseFloat L s of
                     Some f \<Rightarrow> Iface (VFloat64 f)
                   | None \<Rightarrow> Iface (VString s))
        else m0 k)"
proof (induction rng arbitrary: m0)
  case Nil
  then show ?case by (simp add: parseLoop_empty)
next
  case (Cons k' rng)
  from Cons.prems have d: "distinct rng" and notin: "k' \<notin> set rng"
    and safe: "line_safe L m rng"
    by (auto simp: line_safe_def)
  note IH = Cons.IH [OF d safe]
  show ?case
  proof (cases "\<exists>x str. lookup m k' = Some (Iface x) \<and> Sprint_v L x = Some str")
    case False
    then have "lines_of L m (k' # rng) = lines_of L m rng"
      by (auto split: option.splits iface.splits)
    moreover from False assms(1) have "k' \<noteq> k" by auto
    ultimately show ?thesis using IH [of m0] by simp
  next
    case True
    then obtain x str where x: "lookup m k' = Some (Iface x)" and t: "Sprint_v L x = Some str"
      by blast
    with Cons.prems(2) have eq: "CHR ''='' \<notin> set k'" and lf: "LF \<notin> set (k' @ CHR ''='' # str)"
      and len: "length (k' @ CHR ''='' # str) < MaxScanTokenSize"
      by (auto simp: line_safe_def LF_def)
    let ?m1 = "parseLine L m0 (dropCR (k' @ CHR ''='' # str))"
    have "lines_of L m (k' # rng) = (k' @ CHR ''='' # str) @ LF # lines_of L m rng"
      using x t by simp
    then have step: "parseLoop L m0 (lines_of L m (k' # rng)) = parseLoop L ?m1 (lines_of L m rng)"
      using parseLoop_line [OF lf len] by simp
    show ?thesis
    proof (cases "k' = k")
      case True
      with x t assms(1) have "str = s" by auto
      with True eq assms(2,3) have "?m1 k =
          Some (case ParseFloat L s of Some f \<Rightarrow> Iface (VFloat64 f) | None \<Rightarrow> Iface (VString s))"
        using parseLine_value by simp
      with step IH [of ?m1] True notin show ?thesis by simp
    next
      case False
      with eq have "?m1 k = m0 k" by (rule parseLine_other)
      with step IH [of ?m1] False show ?thesis by simp
    qed
  qed
qed

lemma line_roundtrip_string:
  assumes "Type c = Line"
    and "distinct rng" and "set rng = keys (Config c)"
    and "line_safe L (Config c) rng"
    and "Config_Get c k = Some (Iface (VString s))"
    and "\<not> HasPrefix k ''#''" and "dropCR s = s"
    and "os_Create fs (Filepath c) = Inr fs1"
    and "quota fs = None"
  shows "fst (SaveFile L rng fs c) = Returns None \<and>
    (case LoadConfigFile L (fst (snd (SaveFile L rng fs c))) (Filepath c) Line of
       (Some c', None) \<Rightarrow>
         Config_Get c' k = Some (case ParseFloat L s of
                                   Some f \<Rightarrow> Iface (VFloat64 f)
                                 | None \<Rightarrow> Iface (VString s))
     | _ \<Rightarrow> False)"
proof -
  let ?p = "Filepath c"
  let ?text = "lines_of L (Config c) rng"
  from assms(8) have fs1: "fs1 = fs\<lparr>nodes := (nodes fs)(?p \<mapsto> File [])\<rparr>"
    by (auto simp: os_Create_def split: option.splits node.splits)
  then have q: "quota fs1 = None" and n: "nodes fs1 ?p = Some (File [])"
    using assms(9) by simp_all
  let ?fs2 = "fs1\<lparr>nodes := (nodes fs1)(?p \<mapsto> File ([] @ ?text))\<rparr>"
  have w: "writeFileLine L fs1 ?p (Config c) rng = (Returns None, ?fs2)"
    using q n assms(4) by (rule writeFileLine_content)
  have save: "SaveFile L rng fs c = (Returns None, ?fs2, c)"
    using assms(1,8) w by (simp add: SaveFile_def Line_def Json_def)
  have look: "lookup (Config c) k = Some (Iface (VString s))"
    using assms(5) by (simp add: Config_Get_def)
  then have "k \<in> set rng"
    using assms(3) by (auto simp: keys_def lookup_def split: option.splits)
  with parseLoop_lines [OF look assms(6,7,2,4), of Map.empty]
  obtain m' where loop: "parseLoop L Map.empty ?text = (m', None)"
    and m': "m' k = Some (case ParseFloat L s of
                            Some f \<Rightarrow> Iface (VFloat64 f)
                          | None \<Rightarrow> Iface (VString s))"
    by (cases "parseLoop L Map.empty ?text") auto
  have "os_Open ?fs2 ?p = Inr ?text"
    by (simp add: os_Open_def)
  with loop m' show ?thesis
    by (simp add: save LoadConfigFile_def Line_def Json_def parseFileLine_def Config_Get_def
        lookup_def)
qed

text \<open>
  What the conditions of the round trip exclude: a key with \<open>=\<close> is cut at its first
  \<open>=\<close>, and a line feed in a value starts a new line, which can replace another entry.
\<close>

lemma line_roundtrip_equals_in_key:
  "SaveFile lib0 [''a=b''] no_files
      \<lparr>Config = Some [''a=b'' \<mapsto> Iface (VString ''3.14'')], Filepath = ''c.cfg'', Type = Line\<rparr>
     = (Returns None,
        \<lparr>nodes = [''c.cfg'' \<mapsto> File (''a=b=3.14'' @ [LF])], quota = None\<rparr>,
        \<lparr>Config = Some [''a=b'' \<mapsto> Iface (VString ''3.14'')], Filepath = ''c.cfg'', Type = Line\<rparr>) \<and>
   LoadConfigFile lib0 \<lparr>nodes = [''c.cfg'' \<mapsto> File (''a=b=3.14'' @ [LF])], quota = None\<rparr>
      ''c.cfg'' Line
     = (Some \<lparr>Config = Some [''a'' \<mapsto> Iface (VString ''b=3.14'')],
              Filepath = ''c.cfg'', Type = Line\<rparr>,
        None)"
  by (simp add: lib0_def no_files_def SaveFile_def os_Create_def os_Write_def Line_def Json_def
      LoadConfigFile_def os_Open_def parseFileLine_def parseLoop.simps Scan_def LF_def
      MaxScanTokenSize_def dropCR_def CR_def parseLine_def HasPrefix_def SplitN_2_def
      lookup_def)

lemma line_roundtrip_line_feed_in_value:
  "SaveFile lib0 [''pi'', ''x''] no_files
      \<lparr>Config = Some [''pi'' \<mapsto> Iface (VString ''3.14''),
                      ''x'' \<mapsto> Iface (VString (''1'' @ [LF] @ ''pi=no''))],
       Filepath = ''c.cfg'', Type = Line\<rparr>
     = (Returns None,
        \<lparr>nodes = [''c.cfg'' \<mapsto> File (''pi=3.14'' @ [LF] @ ''x=1'' @ [LF] @ ''pi=no'' @ [LF])],
         quota = None\<rparr>,
        \<lparr>Config = Some [''pi'' \<mapsto> Iface (VString ''3.14''),
                        ''x'' \<mapsto> Iface (VString (''1'' @ [LF] @ ''pi=no''))],
         Filepath = ''c.cfg'', Type = Line\<rparr>) \<and>
   LoadConfigFile lib0
      \<lparr>nodes = [''c.cfg'' \<mapsto> File (''pi=3.14'' @ [LF] @ ''x=1'' @ [LF] @ ''pi=no'' @ [LF])],
       quota = None\<rparr> ''c.cfg'' Line
     = (Some \<lparr>Config = Some [''x'' \<mapsto> Iface (VString ''1''), ''pi'' \<mapsto> Iface (VString ''no'')],
              Filepath = ''c.cfg'', Type = Line\<rparr>, None)"
  by (simp add: lib0_def no_files_def SaveFile_def os_Create_def os_Write_def Line_def Json_def
      LoadConfigFile_def os_Open_def parseFileLine_def parseLoop.simps Scan_def LF_def
      MaxScanTokenSize_def dropCR_def CR_def parseLine_def HasPrefix_def SplitN_2_def
      lookup_def)

text \<open>
  C9. Let a store use the line codec, let its mapping be safe for the line format in the
  order of the visit, let \<open>os.Create\<close> succeed on its path and the file system have no
  size limit. Then an entry that holds the string \<open>"3.14"\<close> under a key that does not
  start with \<open>#\<close> is, after \<open>SaveFile\<close> and \<open>LoadConfigFile\<close> of the same path,
  the float64 that \<open>ParseFloat\<close> reads from \<open>"3.14"\<close>, and both calls return the
  nil error.
\<close>

theorem line_roundtrip_float:
  assumes "Type c = Line"
    and "distinct rng" and "set rng = keys (Config c)"
    and "line_safe L (Config c) rng"
    and "Config_Get c k = Some (Iface (VString ''3.14''))"
    and "\<not> HasPrefix k ''#''"
    and "ParseFloat L ''3.14'' = Some f"
    and "os_Create fs (Filepath c) = Inr fs1"
    and "quota fs = None"
  shows "fst (SaveFile L rng fs c) = Returns None \<and>
    (case LoadConfigFile L (fst (snd (SaveFile L rng fs c))) (Filepath c) Line of
       (Some c', None) \<Rightarrow> Config_Get c' k = Some (Iface (VFloat64 f))
     | _ \<Rightarrow> False)"
proof -
  have "dropCR ''3.14'' = ''3.14''"
    by (simp add: dropCR_def CR_def)
  from line_roundtrip_string [OF assms(1-6) this assms(8,9)] assms(7)
  show ?thesis by (auto split: prod.splits option.splits)
qed

theorem line_roundtrip_float_witness:
  "fst (SaveFile lib0 [''pi''] no_files
         \<lparr>Config = Some [''pi'' \<mapsto> Iface (VString ''3.14'')], Filepath = ''c.cfg'', Type = Line\<rparr>)
     = Returns None \<and>
   (case LoadConfigFile lib0
       (fst (snd (SaveFile lib0 [''pi''] no_files
         \<lparr>Config = Some [''pi'' \<mapsto> Iface (VString ''3.14'')], Filepath = ''c.cfg'', Type = Line\<rparr>)))
       ''c.cfg'' Line of
      (Some c', None) \<Rightarrow> Config_Get c' ''pi'' = Some (Iface (VFloat64 pi64))
    | _ \<Rightarrow> False)"
  using line_roundtrip_float [of
      "\<lparr>Config = Some [''pi'' \<mapsto> Iface (VString ''3.14'')], Filepath = ''c.cfg'', Type = Line\<rparr>"
      "[''pi'']" lib0 "''pi''" pi64 no_files
      "\<lparr>nodes = [''c.cfg'' \<mapsto> File []], quota = None\<rparr>"]
  by (simp add: line_safe_def lib0_def no_files_def HasPrefix_def os_Create_def
      MaxScanTokenSize_def LF_def keys_def lookup_def Config_Get_def)

text \<open>
  A key that starts with \<open>#\<close> makes a line that the parser takes for a comment: the
  entry that holds \<open>"3.14"\<close> under \<open>#pi\<close> is written to the file and is gone after
  loading, so it does not come back as a float64.
\<close>

theorem line_roundtrip_comment_key:
  "ParseFloat lib0 ''3.14'' = Some pi64 \<and>
   SaveFile lib0 [''#pi''] no_files
      \<lparr>Config = Some [''#pi'' \<mapsto> Iface (VString ''3.14'')], Filepath = ''c.cfg'', Type = Line\<rparr>
     = (Returns None,
        \<lparr>nodes = [''c.cfg'' \<mapsto> File (''#pi=3.14'' @ [LF])], quota = None\<rparr>,
        \<lparr>Config = Some [''#pi'' \<mapsto> Iface (VString ''3.14'')], Filepath = ''c.cfg'', Type = Line\<rparr>) \<and>
   LoadConfigFile lib0 \<lparr>nodes = [''c.cfg'' \<mapsto> File (''#pi=3.14'' @ [LF])], quota = None\<rparr>
      ''c.cfg'' Line
     = (Some \<lparr>Config = Some Map.empty, Filepath = ''c.cfg'', Type = Line\<rparr>, None) \<and>
   \<not> (case LoadConfigFile lib0
          (fst (snd (SaveFile lib0 [''#pi''] no_files
            \<lparr>Config = Some [''#pi'' \<mapsto> Iface (VString ''3.14'')], Filepath = ''c.cfg'', Type = Line\<rparr>)))
          ''c.cfg'' Line of
         (Some c', None) \<Rightarrow> Config_Get c' ''#pi'' = Some (Iface (VFloat64 pi64))
       | _ \<Rightarrow> False)"
  by (simp add: lib0_def no_files_def SaveFile_def os_Create_def os_Write_def Line_def Json_def
      LoadConfigFile_def os_Open_def parseFileLine_def parseLoop.simps Scan_def LF_def
      MaxScanTokenSize_def dropCR_def CR_def parseLine_def HasPrefix_def IsNotExist_def
      lookup_def Config_Get_def)

end
